theory Spec2Isabelle
  imports Main
begin

section \<open>Exceptions and tensor shapes\<close>

text \<open>
  The module \<^verbatim>\<open>models.py\<close> builds a residual encoder with a policy and a value head
  out of library layers. The model below follows the module at the two levels the
  module itself works on. The first is construction and shapes: which layers are built
  with which channel counts, kernel sizes, strides and paddings, and which shape a tensor
  has after each layer (the functions named \<open>\<dots>_forward\<close>). The second is the state an
  inference call reads and writes: gradient mode, training flag, parameters and buffers
  (\<open>predict\<close> and \<open>forward\<close>); there the numeric work of the library is a parameter.
  A raised exception is a value \<open>Inl e\<close>.

  \<^item> \<open>IndexError\<close>: indexing an empty list (\<^verbatim>\<open>blocks_sizes[0]\<close>).
  \<^item> \<open>NoneTypeNotCallable\<close>: the \<^verbatim>\<open>TypeError\<close> of calling \<^verbatim>\<open>None\<close>.
  \<^item> \<open>ShapeMismatch\<close>: a layer or an in-place addition receives a tensor of a shape it
    does not accept.
  \<^item> \<open>LibraryError\<close>: any other exception raised inside a library call.
\<close>

datatype error = IndexError | NoneTypeNotCallable | ShapeMismatch | LibraryError

type_synonym shape = "nat list"

section \<open>Library layers\<close>

text \<open>
  A two-dimensional convolution with the arguments the module passes: channel counts,
  kernel size, stride, padding and bias; dilation and groups stay at 1 throughout the
  module. Integer arguments are stored as pairs, one entry per spatial dimension.
\<close>

record conv2d =
  conv_in_channels :: nat
  conv_out_channels :: nat
  kernel_size :: "nat \<times> nat"
  stride :: "nat \<times> nat"
  padding :: "nat \<times> nat"
  bias :: bool

definition nn_Conv2d :: "nat \<Rightarrow> nat \<Rightarrow> nat \<times> nat \<Rightarrow> nat \<times> nat \<Rightarrow> nat \<times> nat \<Rightarrow> bool \<Rightarrow> conv2d" where
  "nn_Conv2d cin cout k s p b =
     \<lparr>conv_in_channels = cin, conv_out_channels = cout, kernel_size = k, stride = s,
      padding = p, bias = b\<rparr>"

text \<open>
  \<^verbatim>\<open>Conv2dAuto.__init__\<close> runs the constructor of the convolution with the caller's
  arguments and then overwrites the padding with half the kernel size, rounded down.
\<close>

definition Conv2dAuto :: "nat \<Rightarrow> nat \<Rightarrow> nat \<times> nat \<Rightarrow> nat \<times> nat \<Rightarrow> nat \<times> nat \<Rightarrow> bool \<Rightarrow> conv2d" where
  "Conv2dAuto cin cout k s p b =
     (let self = nn_Conv2d cin cout k s p b
      in self\<lparr>padding := (fst (kernel_size self) div 2, snd (kernel_size self) div 2)\<rparr>)"

text \<open>\<^verbatim>\<open>conv3x3 = partial(Conv2dAuto, kernel_size=3, bias=False)\<close>, called with a stride.\<close>

definition conv3x3 :: "nat \<Rightarrow> nat \<Rightarrow> nat \<times> nat \<Rightarrow> conv2d" where
  "conv3x3 cin cout s = Conv2dAuto cin cout (3, 3) s (0, 0) False"

text \<open>
  The size of one spatial dimension after a convolution with kernel \<open>k\<close>, padding \<open>p\<close>
  and stride \<open>s\<close>: \<open>\<lfloor>(h + 2p - k) / s\<rfloor> + 1\<close>. The library raises when the stride is not
  positive or the kernel is larger than the padded input.
\<close>

definition conv_out_dim :: "nat \<Rightarrow> nat \<Rightarrow> nat \<Rightarrow> nat \<Rightarrow> error + nat" where
  "conv_out_dim h k p s =
     (if s = 0 \<or> k = 0 \<or> h + 2 * p < k then Inl ShapeMismatch
      else Inr ((h + 2 * p - k) div s + 1))"

fun conv2d_forward :: "conv2d \<Rightarrow> shape \<Rightarrow> error + shape" where
  "conv2d_forward c [n, ch, h, w] =
     (if ch \<noteq> conv_in_channels c then Inl ShapeMismatch
      else case conv_out_dim h (fst (kernel_size c)) (fst (padding c)) (fst (stride c)) of
             Inl e \<Rightarrow> Inl e
           | Inr h' \<Rightarrow>
               (case conv_out_dim w (snd (kernel_size c)) (snd (padding c)) (snd (stride c)) of
                  Inl e \<Rightarrow> Inl e
                | Inr w' \<Rightarrow> Inr [n, conv_out_channels c, h', w']))"
| "conv2d_forward c x = Inl ShapeMismatch"

text \<open>Batch normalisation over \<open>f\<close> channels keeps the shape of a batch of \<open>f\<close>-channel maps.\<close>

fun batchnorm2d_forward :: "nat \<Rightarrow> shape \<Rightarrow> error + shape" where
  "batchnorm2d_forward f [n, ch, h, w] = (if ch = f then Inr [n, ch, h, w] else Inl ShapeMismatch)"
| "batchnorm2d_forward f x = Inl ShapeMismatch"

datatype module =
    Identity
  | Conv2d conv2d
  | BatchNorm2d nat
  | ReLU
  | Sequential "module list"

fun module_forward :: "module \<Rightarrow> shape \<Rightarrow> error + shape"
  and seq_forward :: "module list \<Rightarrow> shape \<Rightarrow> error + shape" where
  "module_forward Identity x = Inr x"
| "module_forward (Conv2d c) x = conv2d_forward c x"
| "module_forward (BatchNorm2d f) x = batchnorm2d_forward f x"
| "module_forward ReLU x = Inr x"
| "module_forward (Sequential ms) x = seq_forward ms x"
| "seq_forward [] x = Inr x"
| "seq_forward (m # ms) x =
     (case module_forward m x of Inl e \<Rightarrow> Inl e | Inr y \<Rightarrow> seq_forward ms y)"

text \<open>
  \<^verbatim>\<open>x += residual\<close> adds in place: the result has the shape of \<open>x\<close>, and \<open>residual\<close> must
  broadcast to it, that is, aligned from the last dimension each of its sizes is the
  size of \<open>x\<close> or 1.
\<close>

definition broadcasts_to :: "shape \<Rightarrow> shape \<Rightarrow> bool" where
  "broadcasts_to r x \<longleftrightarrow>
     length r \<le> length x \<and>
     list_all2 (\<lambda>a b. a = b \<or> a = 1) (rev r) (take (length r) (rev x))"

definition iadd :: "shape \<Rightarrow> shape \<Rightarrow> error + shape" where
  "iadd x residual = (if broadcasts_to residual x then Inr x else Inl ShapeMismatch)"

section \<open>Residual blocks\<close>

text \<open>
  A residual block object: the attributes set by \<^verbatim>\<open>ResidualBlock.__init__\<close> and
  \<^verbatim>\<open>ResNetResidualBlock.__init__\<close>. The attribute \<open>shortcut\<close> holds a module or
  \<^verbatim>\<open>None\<close>. The convolution factory of the block is \<open>conv3x3\<close>, the only one the
  module defines, and the activation is the rectified linear unit.
\<close>

record block =
  in_channels :: nat
  out_channels :: nat
  expansion :: nat
  downsampling :: nat
  blocks :: module
  shortcut :: "module option"

definition expanded_channels :: "block \<Rightarrow> nat" where
  "expanded_channels self = out_channels self * expansion self"

text \<open>The property as \<^verbatim>\<open>ResNetResidualBlock\<close> overrides it.\<close>

definition should_apply_shortcut :: "block \<Rightarrow> bool" where
  "should_apply_shortcut self \<longleftrightarrow> in_channels self \<noteq> expanded_channels self"

text \<open>
  \<^verbatim>\<open>ResNetResidualBlock.__init__(in_channels, out_channels, expansion=1, downsampling=1)\<close>:
  the base constructor stores the channel counts and two identity modules, then the
  shortcut is replaced by a 1x1 convolution with normalisation, or by \<^verbatim>\<open>None\<close>.
\<close>

definition ResNetResidualBlock :: "nat \<Rightarrow> nat \<Rightarrow> nat \<Rightarrow> nat \<Rightarrow> block" where
  "ResNetResidualBlock cin cout e d =
     (let self = \<lparr>in_channels = cin, out_channels = cout, expansion = e, downsampling = d,
                  blocks = Identity, shortcut = Some Identity\<rparr>
      in self\<lparr>shortcut :=
           (if should_apply_shortcut self
            then Some (Sequential
                   [Conv2d (nn_Conv2d (in_channels self) (expanded_channels self) (1, 1)
                              (downsampling self, downsampling self) (0, 0) False),
                    BatchNorm2d (expanded_channels self)])
            else None)\<rparr>)"

definition conv_bn :: "nat \<Rightarrow> nat \<Rightarrow> nat \<Rightarrow> module" where
  "conv_bn cin cout s = Sequential [Conv2d (conv3x3 cin cout (s, s)), BatchNorm2d cout]"

text \<open>The class attribute \<^verbatim>\<open>ResNetBasicBlock.expansion\<close>.\<close>

definition ResNetBasicBlock_expansion :: nat where
  "ResNetBasicBlock_expansion = 1"

text \<open>
  \<^verbatim>\<open>ResNetBasicBlock.__init__\<close> passes expansion and downsampling on to
  \<^verbatim>\<open>ResNetResidualBlock.__init__\<close> and then sets the main branch: convolution with the
  block's stride, normalisation, activation, convolution with stride 1, normalisation.
\<close>

definition ResNetBasicBlock :: "nat \<Rightarrow> nat \<Rightarrow> nat \<Rightarrow> nat \<Rightarrow> block" where
  "ResNetBasicBlock cin cout e d =
     (let self = ResNetResidualBlock cin cout e d
      in self\<lparr>blocks :=
           Sequential
             [conv_bn (in_channels self) (out_channels self) (downsampling self),
              ReLU,
              conv_bn (out_channels self) (expanded_channels self) 1]\<rparr>)"

text \<open>
  The residual taken by \<^verbatim>\<open>ResidualBlock.forward\<close>: the input itself, or the shortcut
  applied to the input when the block says so. Calling a shortcut that is \<^verbatim>\<open>None\<close>
  raises.
\<close>

definition residual_of :: "block \<Rightarrow> shape \<Rightarrow> error + shape" where
  "residual_of self x =
     (if should_apply_shortcut self
      then (case shortcut self of
              None \<Rightarrow> Inl NoneTypeNotCallable
            | Some sc \<Rightarrow> module_forward sc x)
      else Inr x)"

definition block_forward :: "block \<Rightarrow> shape \<Rightarrow> error + shape" where
  "block_forward self x =
     (case residual_of self x of
        Inl e \<Rightarrow> Inl e
      | Inr residual \<Rightarrow>
          (case module_forward (blocks self) x of
             Inl e \<Rightarrow> Inl e
           | Inr y \<Rightarrow> iadd y residual))"

section \<open>Stages and the encoder\<close>

definition ResNetLayer_downsampling :: "nat \<Rightarrow> nat \<Rightarrow> nat" where
  "ResNetLayer_downsampling cin cout = (if cin \<noteq> cout then 2 else 1)"

text \<open>
  \<^verbatim>\<open>ResNetLayer.__init__(in_channels, out_channels, n)\<close> with the block class
  \<^verbatim>\<open>ResNetBasicBlock\<close>: one block with the stage's downsampling, then \<open>n - 1\<close> blocks
  (\<^verbatim>\<open>range(n - 1)\<close>, empty when \<open>n \<le> 1\<close>) from the class's expanded width. The blocks are
  built with the constructor's default expansion 1. The stage and the encoder hand
  further keyword arguments on to the block constructor; the module hands on the
  activation, which stays the rectified linear unit, and nothing else that a block reads.
\<close>

definition ResNetLayer :: "nat \<Rightarrow> nat \<Rightarrow> int \<Rightarrow> block list" where
  "ResNetLayer cin cout n =
     (let downsampling = ResNetLayer_downsampling cin cout
      in ResNetBasicBlock cin cout 1 downsampling
         # replicate (nat (n - 1))
             (ResNetBasicBlock (cout * ResNetBasicBlock_expansion) cout 1 1))"

fun ResNetLayer_forward :: "block list \<Rightarrow> shape \<Rightarrow> error + shape" where
  "ResNetLayer_forward [] x = Inr x"
| "ResNetLayer_forward (b # bs) x =
     (case block_forward b x of Inl e \<Rightarrow> Inl e | Inr y \<Rightarrow> ResNetLayer_forward bs y)"

record encoder =
  blocks_sizes :: "nat list"
  gate :: module
  in_out_block_sizes :: "(nat \<times> nat) list"
  stages :: "block list list"

text \<open>
  \<^verbatim>\<open>ResNetEncoder.__init__(in_channels, blocks_sizes, deepths)\<close>. Reading index 0 of an
  empty list raises. The attribute \<^verbatim>\<open>blocks\<close> of the encoder, its list of stages, is
  the field \<open>stages\<close>.
\<close>

definition ResNetEncoder :: "nat \<Rightarrow> nat list \<Rightarrow> int list \<Rightarrow> error + encoder" where
  "ResNetEncoder cin bs ds =
     (case bs of
        [] \<Rightarrow> Inl IndexError
      | b0 # _ \<Rightarrow>
          (case ds of
             [] \<Rightarrow> Inl IndexError
           | d0 # _ \<Rightarrow>
               Inr \<lparr>blocks_sizes = bs,
                    gate = Sequential
                             [Conv2d (nn_Conv2d cin b0 (3, 3) (1, 1) (1, 1) False),
                              BatchNorm2d b0, ReLU],
                    in_out_block_sizes = zip bs (tl bs),
                    stages = [ResNetLayer b0 b0 d0]\<rparr>))"

fun stages_forward :: "block list list \<Rightarrow> shape \<Rightarrow> error + shape" where
  "stages_forward [] x = Inr x"
| "stages_forward (s # ss) x =
     (case ResNetLayer_forward s x of Inl e \<Rightarrow> Inl e | Inr y \<Rightarrow> stages_forward ss y)"

definition ResNetEncoder_forward :: "encoder \<Rightarrow> shape \<Rightarrow> error + shape" where
  "ResNetEncoder_forward self x =
     (case module_forward (gate self) x of
        Inl e \<Rightarrow> Inl e
      | Inr y \<Rightarrow> stages_forward (stages self) y)"

section \<open>The two heads and the dual network\<close>

record linear =
  in_features :: nat
  out_features :: nat

record policy_net =
  pn_outplanes :: nat
  pn_inplanes :: nat
  pn_conv :: conv2d
  pn_bn :: nat
  pn_fc :: linear

record value_net =
  vn_outplanes :: nat
  vn_conv :: conv2d
  vn_bn :: nat
  vn_fc1 :: linear
  vn_fc2 :: linear

definition PolicyNet :: "nat \<Rightarrow> nat \<Rightarrow> policy_net" where
  "PolicyNet inplanes outplanes =
     \<lparr>pn_outplanes = outplanes, pn_inplanes = inplanes,
      pn_conv = nn_Conv2d inplanes 1 (1, 1) (1, 1) (0, 0) True,
      pn_bn = 1,
      pn_fc = \<lparr>in_features = 121, out_features = outplanes\<rparr>\<rparr>"

definition ValueNet :: "nat \<Rightarrow> nat \<Rightarrow> value_net" where
  "ValueNet inplanes outplanes =
     \<lparr>vn_outplanes = outplanes,
      vn_conv = nn_Conv2d inplanes 1 (1, 1) (1, 1) (0, 0) True,
      vn_bn = 1,
      vn_fc1 = \<lparr>in_features = 121, out_features = 256\<rparr>,
      vn_fc2 = \<lparr>in_features = 256, out_features = 1\<rparr>\<rparr>"

text \<open>\<^verbatim>\<open>xs[-1]\<close>: the last element, an exception on the empty list.\<close>

definition py_last :: "'a list \<Rightarrow> error + 'a" where
  "py_last xs = (case xs of [] \<Rightarrow> Inl IndexError | _ # _ \<Rightarrow> Inr (last xs))"

record 'd dual_res =
  use_cuda :: bool
  use_tpu :: bool
  dev :: "'d option"
  encoder :: encoder
  policy :: policy_net
  val :: value_net

definition ResNetEncoder_default_blocks_sizes :: "nat list" where
  "ResNetEncoder_default_blocks_sizes = [128]"

text \<open>
  \<^verbatim>\<open>DualRes.__init__(in_channels, n_classes, cuda, tpu, dev, blocks_size, deepths)\<close>.
  The constructor hands its list of widths to the encoder under the keyword
  \<^verbatim>\<open>blocks_size\<close>; the encoder's parameter is named \<^verbatim>\<open>blocks_sizes\<close>, so the keyword
  joins the encoder's extra keyword arguments, which no constructor reads, and the
  encoder is built with its default widths. The attribute \<^verbatim>\<open>value\<close> is the field
  \<open>val\<close>.
\<close>

definition DualRes ::
  "nat \<Rightarrow> nat \<Rightarrow> bool \<Rightarrow> bool \<Rightarrow> 'd option \<Rightarrow> nat list \<Rightarrow> int list \<Rightarrow> error + 'd dual_res" where
  "DualRes cin n_classes cuda tpu dv blocks_size deepths =
     (case ResNetEncoder cin ResNetEncoder_default_blocks_sizes deepths of
        Inl e \<Rightarrow> Inl e
      | Inr enc \<Rightarrow>
          (case py_last (stages enc) of
             Inl e \<Rightarrow> Inl e
           | Inr stage \<Rightarrow>
               (case py_last stage of
                  Inl e \<Rightarrow> Inl e
                | Inr b \<Rightarrow>
                    Inr \<lparr>use_cuda = cuda, use_tpu = tpu, dev = dv, encoder = enc,
                         policy = PolicyNet (expanded_channels b) n_classes,
                         val = ValueNet (expanded_channels b) n_classes\<rparr>)))"

text \<open>
  The shape-level forward passes of the heads. \<^verbatim>\<open>x.view(x.size(0), -1)\<close> keeps the
  first dimension and flattens the rest; it raises on a tensor without dimensions and on
  an empty batch. A linear layer replaces the last dimension, which must equal its input
  width. The normalisation over dimension 1, the exponential, the rectified linear unit
  and the hyperbolic tangent keep the shape. Only shapes are followed here: the entries
  of the tensors are floating-point results of the library's kernels.
\<close>

fun view_flatten :: "shape \<Rightarrow> error + shape" where
  "view_flatten [] = Inl IndexError"
| "view_flatten (n # rest) = (if n = 0 then Inl ShapeMismatch else Inr [n, prod_list rest])"

definition linear_forward :: "linear \<Rightarrow> shape \<Rightarrow> error + shape" where
  "linear_forward l x =
     (if x \<noteq> [] \<and> last x = in_features l then Inr (butlast x @ [out_features l])
      else Inl ShapeMismatch)"

definition logsoftmax_dim1 :: "shape \<Rightarrow> error + shape" where
  "logsoftmax_dim1 x = (if length x < 2 then Inl IndexError else Inr x)"

definition PolicyNet_forward :: "policy_net \<Rightarrow> shape \<Rightarrow> error + shape" where
  "PolicyNet_forward self x =
     (case conv2d_forward (pn_conv self) x of
        Inl e \<Rightarrow> Inl e
      | Inr x1 \<Rightarrow>
          (case batchnorm2d_forward (pn_bn self) x1 of
             Inl e \<Rightarrow> Inl e
           | Inr x2 \<Rightarrow>
               (case view_flatten x2 of
                  Inl e \<Rightarrow> Inl e
                | Inr x3 \<Rightarrow>
                    (case linear_forward (pn_fc self) x3 of
                       Inl e \<Rightarrow> Inl e
                     | Inr x4 \<Rightarrow> logsoftmax_dim1 x4))))"

definition ValueNet_forward :: "value_net \<Rightarrow> shape \<Rightarrow> error + shape" where
  "ValueNet_forward self x =
     (case conv2d_forward (vn_conv self) x of
        Inl e \<Rightarrow> Inl e
      | Inr x1 \<Rightarrow>
          (case batchnorm2d_forward (vn_bn self) x1 of
             Inl e \<Rightarrow> Inl e
           | Inr x2 \<Rightarrow>
               (case view_flatten x2 of
                  Inl e \<Rightarrow> Inl e
                | Inr x3 \<Rightarrow>
                    (case linear_forward (vn_fc1 self) x3 of
                       Inl e \<Rightarrow> Inl e
                     | Inr x4 \<Rightarrow> linear_forward (vn_fc2 self) x4))))"

definition DualRes_forward :: "'d dual_res \<Rightarrow> shape \<Rightarrow> error + shape \<times> shape" where
  "DualRes_forward self x =
     (case ResNetEncoder_forward (encoder self) x of
        Inl e \<Rightarrow> Inl e
      | Inr f \<Rightarrow>
          (case PolicyNet_forward (policy self) f of
             Inl e \<Rightarrow> Inl e
           | Inr pi \<Rightarrow>
               (case ValueNet_forward (val self) f of
                  Inl e \<Rightarrow> Inl e
                | Inr v \<Rightarrow> Inr (pi, v))))"

section \<open>Inference\<close>

text \<open>
  What \<^verbatim>\<open>predict\<close> reads and writes besides its argument: the global gradient mode,
  the training flag that \<^verbatim>\<open>eval()\<close> clears on the module and all its submodules, and
  the parameters and buffers of the layers. The field \<open>forward_entries\<close> is a ghost
  field: every entry into \<^verbatim>\<open>forward\<close> appends the gradient mode and the training flag
  it runs under; nothing reads it.
\<close>

record 'w runtime =
  grad_enabled :: bool
  training :: bool
  weights :: 'w
  forward_entries :: "(bool \<times> bool) list"

text \<open>
  The library calls of \<^verbatim>\<open>predict\<close> and \<^verbatim>\<open>forward\<close> are parameters: the conversions
  of the input array, the reshape, the three submodule calls (given the training flag
  and the parameters and buffers, they return a tensor or raise, and the buffers as
  they leave them), and the conversion of a result tensor to an array.
\<close>

record ('a, 't, 'w, 'd) torch =
  from_numpy_to :: "'a \<Rightarrow> 'd option \<Rightarrow> error + 't"
  FloatTensor_astype :: "'a \<Rightarrow> error + 't"
  contiguous_cuda :: "'t \<Rightarrow> error + 't"
  view :: "'t \<Rightarrow> nat list \<Rightarrow> error + 't"
  encoder_call :: "bool \<Rightarrow> 'w \<Rightarrow> 't \<Rightarrow> (error + 't) \<times> 'w"
  policy_call :: "bool \<Rightarrow> 'w \<Rightarrow> 't \<Rightarrow> (error + 't) \<times> 'w"
  value_call :: "bool \<Rightarrow> 'w \<Rightarrow> 't \<Rightarrow> (error + 't) \<times> 'w"
  data_cpu_numpy_0 :: "'t \<Rightarrow> error + 'a"

definition module_eval :: "'w runtime \<Rightarrow> 'w runtime" where
  "module_eval \<sigma> = \<sigma>\<lparr>training := False\<rparr>"

text \<open>
  \<^verbatim>\<open>with torch.no_grad(): body\<close>. Entering saves the gradient mode and switches it off;
  leaving restores the saved mode, whether the body returned or raised, and a raised
  exception then propagates.
\<close>

definition with_no_grad ::
  "('w runtime \<Rightarrow> (error + 'r) \<times> 'w runtime) \<Rightarrow> 'w runtime \<Rightarrow> (error + 'r) \<times> 'w runtime" where
  "with_no_grad body \<sigma> =
     (let prev = grad_enabled \<sigma>;
          (r, \<sigma>') = body (\<sigma>\<lparr>grad_enabled := False\<rparr>)
      in (r, \<sigma>'\<lparr>grad_enabled := prev\<rparr>))"

definition forward ::
  "('a, 't, 'w, 'd) torch \<Rightarrow> 't \<Rightarrow> 'w runtime \<Rightarrow> (error + 't \<times> 't) \<times> 'w runtime" where
  "forward lib x \<sigma> =
     (let \<sigma>0 = \<sigma>\<lparr>forward_entries := forward_entries \<sigma> @ [(grad_enabled \<sigma>, training \<sigma>)]\<rparr>
      in case encoder_call lib (training \<sigma>0) (weights \<sigma>0) x of
           (Inl e, w1) \<Rightarrow> (Inl e, \<sigma>0\<lparr>weights := w1\<rparr>)
         | (Inr f, w1) \<Rightarrow>
             (case policy_call lib (training \<sigma>0) w1 f of
                (Inl e, w2) \<Rightarrow> (Inl e, \<sigma>0\<lparr>weights := w2\<rparr>)
              | (Inr pi, w2) \<Rightarrow>
                  (case value_call lib (training \<sigma>0) w2 f of
                     (Inl e, w3) \<Rightarrow> (Inl e, \<sigma>0\<lparr>weights := w3\<rparr>)
                   | (Inr v, w3) \<Rightarrow> (Inr (pi, v), \<sigma>0\<lparr>weights := w3\<rparr>))))"

definition predict ::
  "('a, 't, 'w, 'd) torch \<Rightarrow> 'd dual_res \<Rightarrow> 'a \<Rightarrow> 'w runtime \<Rightarrow> (error + 'a \<times> 'a) \<times> 'w runtime" where
  "predict lib self x \<sigma> =
     (case (if use_tpu self then from_numpy_to lib x (dev self) else FloatTensor_astype lib x) of
        Inl e \<Rightarrow> (Inl e, \<sigma>)
      | Inr x1 \<Rightarrow>
          (case (if use_cuda self then contiguous_cuda lib x1 else Inr x1) of
             Inl e \<Rightarrow> (Inl e, \<sigma>)
           | Inr x2 \<Rightarrow>
               (case view lib x2 [1, 10, 11, 11] of
                  Inl e \<Rightarrow> (Inl e, \<sigma>)
                | Inr x3 \<Rightarrow>
                    (case with_no_grad (forward lib x3) (module_eval \<sigma>) of
                       (Inl e, \<sigma>') \<Rightarrow> (Inl e, \<sigma>')
                     | (Inr (pi, v), \<sigma>') \<Rightarrow>
                         (case data_cpu_numpy_0 lib pi of
                            Inl e \<Rightarrow> (Inl e, \<sigma>')
                          | Inr p \<Rightarrow>
                              (case data_cpu_numpy_0 lib v of
                                 Inl e \<Rightarrow> (Inl e, \<sigma>')
                               | Inr u \<Rightarrow> (Inr (p, u), \<sigma>')))))))"

section \<open>Shapes through the library layers\<close>

text \<open>Every exception of a shape-level layer call is a shape mismatch.\<close>

lemma module_forward_error:
  "module_forward m x = Inl e \<Longrightarrow> e = ShapeMismatch"
  "seq_forward ms x = Inl e \<Longrightarrow> e = ShapeMismatch"
proof (induction m x and ms x arbitrary: e and e rule: module_forward_seq_forward.induct)
  case (2 c x)
  then show ?case
    by (cases "(c, x)" rule: conv2d_forward.cases)
       (auto simp: conv_out_dim_def split: if_splits sum.splits)
next
  case (3 f x)
  then show ?case
    by (cases "(f, x)" rule: batchnorm2d_forward.cases) (auto split: if_splits)
next
  case (7 m ms x)
  then show ?case by (auto split: sum.splits)
qed auto

lemma conv_out_dim_stride1:
  "0 < k \<Longrightarrow> 0 < h \<Longrightarrow>
   conv_out_dim h k (k div 2) 1 = Inr (if odd k then h else h + 1)"
  by (auto simp: conv_out_dim_def elim!: oddE)

lemma conv3x3_forward:
  "0 < s \<Longrightarrow> 0 < h \<Longrightarrow> 0 < w \<Longrightarrow>
   conv2d_forward (conv3x3 cin cout (s, s)) [n, cin, h, w] =
     Inr [n, cout, (h - 1) div s + 1, (w - 1) div s + 1]"
  by (simp add: conv3x3_def Conv2dAuto_def nn_Conv2d_def conv_out_dim_def)

lemma conv_bn_forward:
  "0 < s \<Longrightarrow> 0 < h \<Longrightarrow> 0 < w \<Longrightarrow>
   module_forward (conv_bn cin cout s) [n, cin, h, w] =
     Inr [n, cout, (h - 1) div s + 1, (w - 1) div s + 1]"
  using conv3x3_forward [of s h w cin cout n]
  by (simp add: conv_bn_def del: conv2d_forward.simps)


lemma iadd_same: "iadd x x = Inr x"
  by (simp add: iadd_def broadcasts_to_def list_all2_same)

section \<open>The padded convolution\<close>

text \<open>
  Claim C4, as amended. For all kernel sizes \<open>kh, kw \<ge> 1\<close>, even ones included, a
  constructed \<^verbatim>\<open>Conv2dAuto\<close> has padding \<open>\<lfloor>kh / 2\<rfloor>\<close> and \<open>\<lfloor>kw / 2\<rfloor>\<close>, whatever padding
  the caller passed. With stride 1 its output has the spatial size of its input in every
  dimension whose kernel size is odd, and that size plus one in every dimension whose
  kernel size is even.
\<close>

theorem Conv2dAuto_padding_and_stride1_size:
  "padding (Conv2dAuto cin cout (kh, kw) s p b) = (kh div 2, kw div 2) \<and>
   (0 < kh \<and> 0 < kw \<and> 0 < h \<and> 0 < w \<longrightarrow>
      conv2d_forward (Conv2dAuto cin cout (kh, kw) (1, 1) p b) [n, cin, h, w] =
        Inr [n, cout, if odd kh then h else h + 1, if odd kw then w else w + 1])"
proof (intro conjI impI)
  show "padding (Conv2dAuto cin cout (kh, kw) s p b) = (kh div 2, kw div 2)"
    by (simp add: Conv2dAuto_def nn_Conv2d_def)
next
  assume pos: "0 < kh \<and> 0 < kw \<and> 0 < h \<and> 0 < w"
  have "conv_out_dim h kh (kh div 2) 1 = Inr (if odd kh then h else h + 1)"
    using pos by (intro conv_out_dim_stride1) simp_all
  moreover have "conv_out_dim w kw (kw div 2) 1 = Inr (if odd kw then w else w + 1)"
    using pos by (intro conv_out_dim_stride1) simp_all
  ultimately show "conv2d_forward (Conv2dAuto cin cout (kh, kw) (1, 1) p b) [n, cin, h, w] =
      Inr [n, cout, if odd kh then h else h + 1, if odd kw then w else w + 1]"
    by (simp add: Conv2dAuto_def nn_Conv2d_def)
qed

text \<open>The 3x3 kernel of the module on an 11x11 map.\<close>

theorem Conv2dAuto_padding_and_stride1_size_witness:
  "padding (Conv2dAuto 10 128 (3, 3) (2, 2) (0, 0) False) = (1, 1) \<and>
   conv2d_forward (Conv2dAuto 10 128 (3, 3) (1, 1) (0, 0) False) [1, 10, 11, 11] =
     Inr [1, 128, 11, 11]"
  using Conv2dAuto_padding_and_stride1_size [of 10 128 3 3 "(2, 2)" "(0, 0)" False 11 11 1]
  by simp

text \<open>
  With a 2x2 kernel and stride 1 the padding is 1 and an 11x11 map leaves the
  convolution as a 12x12 map: the output size is not the input size.
\<close>

theorem Conv2dAuto_even_kernel_counterexample:
  "padding (Conv2dAuto 10 128 (2, 2) (1, 1) (0, 0) False) = (1, 1) \<and>
   conv2d_forward (Conv2dAuto 10 128 (2, 2) (1, 1) (0, 0) False) [1, 10, 11, 11] =
     Inr [1, 128, 12, 12] \<and>
   conv2d_forward (Conv2dAuto 10 128 (2, 2) (1, 1) (0, 0) False) [1, 10, 11, 11] \<noteq>
     Inr [1, 128, 11, 11]"
  by (simp add: Conv2dAuto_def nn_Conv2d_def conv_out_dim_def)

section \<open>Residual blocks: shortcut and main branch\<close>

lemma basic_block_main_branch:
  "0 < d \<Longrightarrow> 0 < h \<Longrightarrow> 0 < w \<Longrightarrow>
   module_forward (blocks (ResNetBasicBlock cin cout e d)) [n, cin, h, w] =
     Inr [n, cout * e, (h - 1) div d + 1, (w - 1) div d + 1]"
  by (simp add: ResNetBasicBlock_def ResNetResidualBlock_def Let_def expanded_channels_def
        conv_bn_forward)

lemma basic_block_fields:
  "in_channels (ResNetBasicBlock cin cout e d) = cin"
  "out_channels (ResNetBasicBlock cin cout e d) = cout"
  "expansion (ResNetBasicBlock cin cout e d) = e"
  "downsampling (ResNetBasicBlock cin cout e d) = d"
  "shortcut (ResNetBasicBlock cin cout e d) = shortcut (ResNetResidualBlock cin cout e d)"
  "should_apply_shortcut (ResNetBasicBlock cin cout e d) \<longleftrightarrow> cin \<noteq> cout * e"
  by (simp_all add: ResNetBasicBlock_def ResNetResidualBlock_def Let_def
        should_apply_shortcut_def expanded_channels_def)

lemma residual_block_fields:
  "in_channels (ResNetResidualBlock cin cout e d) = cin"
  "out_channels (ResNetResidualBlock cin cout e d) = cout"
  "expansion (ResNetResidualBlock cin cout e d) = e"
  "downsampling (ResNetResidualBlock cin cout e d) = d"
  "blocks (ResNetResidualBlock cin cout e d) = Identity"
  "should_apply_shortcut (ResNetResidualBlock cin cout e d) \<longleftrightarrow> cin \<noteq> cout * e"
  "shortcut (ResNetResidualBlock cin cout e d) =
     (if cin \<noteq> cout * e
      then Some (Sequential [Conv2d (nn_Conv2d cin (cout * e) (1, 1) (d, d) (0, 0) False),
                             BatchNorm2d (cout * e)])
      else None)"
  by (simp_all add: ResNetResidualBlock_def Let_def should_apply_shortcut_def
        expanded_channels_def)


lemma basic_block_forward_identity:
  "0 < h \<Longrightarrow> 0 < w \<Longrightarrow>
   block_forward (ResNetBasicBlock (cout * e) cout e 1) [n, cout * e, h, w] =
     Inr [n, cout * e, h, w]"
  using basic_block_main_branch [of 1 h w "cout * e" cout e n]
  by (simp add: block_forward_def residual_of_def basic_block_fields iadd_same)



text \<open>
  Claim C10. In every residual convolution block and every basic block with
  \<open>in_channels = out_channels * expansion\<close> the stored shortcut is \<^verbatim>\<open>None\<close> and
  \<open>should_apply_shortcut\<close> is false; whenever \<open>should_apply_shortcut\<close> is true a shortcut
  module is stored. So on no input does taking the residual, or the whole forward pass,
  raise the exception of calling \<^verbatim>\<open>None\<close>.
\<close>

theorem shortcut_none_never_called:
  assumes "self = ResNetResidualBlock cin cout e d \<or> self = ResNetBasicBlock cin cout e d"
  shows "(cin = cout * e \<longrightarrow> shortcut self = None \<and> \<not> should_apply_shortcut self) \<and>
         (should_apply_shortcut self \<longrightarrow> shortcut self \<noteq> None) \<and>
         residual_of self x \<noteq> Inl NoneTypeNotCallable \<and>
         block_forward self x \<noteq> Inl NoneTypeNotCallable"
proof -
  have sc: "shortcut self = shortcut (ResNetResidualBlock cin cout e d)"
    and app: "should_apply_shortcut self \<longleftrightarrow> cin \<noteq> cout * e"
    using assms by (auto simp: basic_block_fields residual_block_fields)
  have none: "cin = cout * e \<longrightarrow> shortcut self = None \<and> \<not> should_apply_shortcut self"
    by (simp add: sc app residual_block_fields)
  have some: "should_apply_shortcut self \<longrightarrow> shortcut self \<noteq> None"
    by (simp add: sc app residual_block_fields)
  have res: "residual_of self x \<noteq> Inl NoneTypeNotCallable"
  proof (cases "should_apply_shortcut self")
    case True
    with some obtain m where m: "shortcut self = Some m" by auto
    have "module_forward m x \<noteq> Inl NoneTypeNotCallable"
      using module_forward_error(1) [of m x NoneTypeNotCallable] by auto
    with True m show ?thesis by (simp add: residual_of_def)
  next
    case False
    then show ?thesis by (simp add: residual_of_def)
  qed
  have main: "module_forward (blocks self) x \<noteq> Inl NoneTypeNotCallable"
    using module_forward_error(1) [of "blocks self" x NoneTypeNotCallable] by auto
  have "block_forward self x \<noteq> Inl NoneTypeNotCallable"
    using res main
    by (auto simp: block_forward_def iadd_def split: sum.splits)
  with none some res show ?thesis by blast
qed

text \<open>The block of constant width 128 on an 11x11 map.\<close>

theorem shortcut_none_never_called_witness:
  "shortcut (ResNetBasicBlock 128 128 1 1) = None \<and>
   \<not> should_apply_shortcut (ResNetBasicBlock 128 128 1 1) \<and>
   block_forward (ResNetBasicBlock 128 128 1 1) [1, 128, 11, 11] \<noteq> Inl NoneTypeNotCallable \<and>
   block_forward (ResNetBasicBlock 128 128 1 1) [1, 128, 11, 11] = Inr [1, 128, 11, 11]"
  using shortcut_none_never_called [of "ResNetBasicBlock 128 128 1 1" 128 128 1 1 "[1, 128, 11, 11]"]
    basic_block_forward_identity [of 11 11 128 1 1]
  by simp

section \<open>Stages\<close>

lemma same_width_block_forward:
  "0 < h \<Longrightarrow> 0 < w \<Longrightarrow>
   block_forward (ResNetBasicBlock c c 1 1) [n, c, h, w] = Inr [n, c, h, w]"
  using basic_block_forward_identity [of h w c 1 n] by simp

lemma replicate_identity_blocks_forward:
  "0 < h \<Longrightarrow> 0 < w \<Longrightarrow>
   ResNetLayer_forward (replicate k (ResNetBasicBlock c c 1 1)) [n, c, h, w] =
     Inr [n, c, h, w]"
proof (induction k)
  case 0
  show ?case by simp
next
  case (Suc k)
  with same_width_block_forward [of h w c n] show ?case by simp
qed




section \<open>The encoder and the heads of the dual network\<close>

lemma same_width_layer_blocks:
  "blk \<in> set (ResNetLayer c c n) \<Longrightarrow> blk = ResNetBasicBlock c c 1 1"
  by (auto simp: ResNetLayer_def ResNetLayer_downsampling_def ResNetBasicBlock_expansion_def)

lemma last_same_width_layer: "last (ResNetLayer c c n) = ResNetBasicBlock c c 1 1"
  by (simp add: ResNetLayer_def ResNetLayer_downsampling_def ResNetBasicBlock_expansion_def)

lemma py_last_same_width_layer:
  "py_last (ResNetLayer c c n) = Inr (ResNetBasicBlock c c 1 1)"
  by (simp add: py_last_def ResNetLayer_def ResNetLayer_downsampling_def
        ResNetBasicBlock_expansion_def)

lemma py_last_single: "py_last [x] = Inr x"
  by (simp add: py_last_def)

text \<open>
  Claim C7. For all lists \<open>blocks_sizes\<close> and \<open>deepths\<close> with at least one entry the
  encoder constructor succeeds and builds exactly one stage,
  \<open>ResNetLayer blocks_sizes[0] blocks_sizes[0] deepths[0]\<close>: every block of it has input,
  output and expanded width \<open>blocks_sizes[0]\<close> and downsampling 1, and it has \<open>deepths[0]\<close>
  blocks when \<open>deepths[0] \<ge> 1\<close>. The gate and the stages are those built from the one-entry
  lists \<open>[blocks_sizes[0]]\<close> and \<open>[deepths[0]]\<close>, so later entries have no effect on the
  network. The dual network gives both heads, as input channel count, the expanded channel
  count of the last block of the last stage of its encoder, which is the first width of
  that encoder times the expansion of that block.
\<close>

theorem ResNetEncoder_single_stage:
  "\<exists>enc enc0.
     ResNetEncoder cin (b0 # bs) (d0 # ds) = Inr enc \<and>
     ResNetEncoder cin [b0] [d0] = Inr enc0 \<and>
     gate enc = gate enc0 \<and> stages enc = stages enc0 \<and>
     stages enc = [ResNetLayer b0 b0 d0] \<and>
     (1 \<le> d0 \<longrightarrow> length (ResNetLayer b0 b0 d0) = nat d0) \<and>
     (\<forall>blk \<in> set (ResNetLayer b0 b0 d0).
        in_channels blk = b0 \<and> out_channels blk = b0 \<and> expanded_channels blk = b0 \<and>
        downsampling blk = 1) \<and>
     (\<exists>m. DualRes cin n_classes cuda tpu (dv :: 'd option) blocks_size (d0 # ds) = Inr m \<and>
        pn_inplanes (policy m) = expanded_channels (last (last (stages (encoder m)))) \<and>
        conv_in_channels (pn_conv (policy m)) =
          expanded_channels (last (last (stages (encoder m)))) \<and>
        conv_in_channels (vn_conv (val m)) =
          expanded_channels (last (last (stages (encoder m)))) \<and>
        expanded_channels (last (last (stages (encoder m)))) =
          hd (blocks_sizes (encoder m)) * expansion (last (last (stages (encoder m)))))"
proof -
  let ?gate = "\<lambda>c. Sequential [Conv2d (nn_Conv2d cin c (3, 3) (1, 1) (1, 1) False), BatchNorm2d c, ReLU]"
  let ?enc = "\<lparr>blocks_sizes = b0 # bs, gate = ?gate b0,
               in_out_block_sizes = zip (b0 # bs) bs, stages = [ResNetLayer b0 b0 d0]\<rparr>"
  let ?short = "\<lparr>blocks_sizes = [b0], gate = ?gate b0,
               in_out_block_sizes = [], stages = [ResNetLayer b0 b0 d0]\<rparr>"
  let ?denc = "\<lparr>blocks_sizes = [128], gate = ?gate 128,
               in_out_block_sizes = [], stages = [ResNetLayer 128 128 d0]\<rparr>"
  let ?m = "\<lparr>use_cuda = cuda, use_tpu = tpu, dev = dv, encoder = ?denc,
             policy = PolicyNet 128 n_classes, val = ValueNet 128 n_classes\<rparr>"
  have e: "ResNetEncoder cin (b0 # bs) (d0 # ds) = Inr ?enc"
    by (simp add: ResNetEncoder_def)
  have e0: "ResNetEncoder cin [b0] [d0] = Inr ?short"
    by (simp add: ResNetEncoder_def)
  have len: "1 \<le> d0 \<longrightarrow> length (ResNetLayer b0 b0 d0) = nat d0"
    by (auto simp: ResNetLayer_def)
  have blks: "\<forall>blk \<in> set (ResNetLayer b0 b0 d0).
      in_channels blk = b0 \<and> out_channels blk = b0 \<and> expanded_channels blk = b0 \<and>
      downsampling blk = 1"
    by (auto dest!: same_width_layer_blocks simp: basic_block_fields expanded_channels_def)
  have exp: "expanded_channels (ResNetBasicBlock 128 128 1 1) = 128"
    by (simp add: expanded_channels_def basic_block_fields)
  have m: "DualRes cin n_classes cuda tpu dv blocks_size (d0 # ds) = Inr ?m"
    using exp py_last_same_width_layer [of 128 d0]
    by (simp add: DualRes_def ResNetEncoder_def ResNetEncoder_default_blocks_sizes_def
          py_last_single)
  have heads: "pn_inplanes (policy ?m) = expanded_channels (last (last (stages (encoder ?m)))) \<and>
      conv_in_channels (pn_conv (policy ?m)) =
        expanded_channels (last (last (stages (encoder ?m)))) \<and>
      conv_in_channels (vn_conv (val ?m)) =
        expanded_channels (last (last (stages (encoder ?m)))) \<and>
      expanded_channels (last (last (stages (encoder ?m)))) =
        hd (blocks_sizes (encoder ?m)) * expansion (last (last (stages (encoder ?m))))"
    using exp last_same_width_layer [of 128 d0]
    by (simp add: PolicyNet_def ValueNet_def nn_Conv2d_def basic_block_fields)
  from e e0 len blks m heads show ?thesis
    by (intro exI [of _ ?enc] exI [of _ ?short] exI [of _ ?m] conjI) simp_all
qed

text \<open>Lists of three entries, and a dual network with five actions.\<close>

theorem ResNetEncoder_single_stage_witness:
  "\<exists>enc. ResNetEncoder 10 [128, 256, 512] [2, 5, 7] = Inr enc \<and>
     stages enc = [ResNetLayer 128 128 2] \<and>
     length (ResNetLayer 128 128 2) = 2 \<and>
     (\<exists>m. DualRes 10 5 False False (None :: nat option) [64] [2, 5, 7] = Inr m \<and>
        expanded_channels (last (last (stages (encoder m)))) = 128 \<and>
        pn_inplanes (policy m) = 128 \<and>
        conv_in_channels (pn_conv (policy m)) = 128 \<and>
        conv_in_channels (vn_conv (val m)) = 128)"
proof -
  from ResNetEncoder_single_stage
         [of 10 128 "[256, 512]" 2 "[5, 7]" 5 False False "None :: nat option" "[64]"]
  obtain enc m where
    enc: "ResNetEncoder 10 [128, 256, 512] [2, 5, 7] = Inr enc"
      "stages enc = [ResNetLayer 128 128 2]" "length (ResNetLayer 128 128 2) = 2"
    and m: "DualRes 10 5 False False (None :: nat option) [64] [2, 5, 7] = Inr m"
      "pn_inplanes (policy m) = expanded_channels (last (last (stages (encoder m))))"
      "conv_in_channels (pn_conv (policy m)) =
         expanded_channels (last (last (stages (encoder m))))"
      "conv_in_channels (vn_conv (val m)) =
         expanded_channels (last (last (stages (encoder m))))"
      "expanded_channels (last (last (stages (encoder m)))) =
         hd (blocks_sizes (encoder m)) * expansion (last (last (stages (encoder m))))"
    by auto
  from m(1) have "blocks_sizes (encoder m) = [128]"
    and "stages (encoder m) = [ResNetLayer 128 128 2]"
    by (auto simp: DualRes_def ResNetEncoder_def ResNetEncoder_default_blocks_sizes_def
          split: sum.splits)
  moreover have "expansion (last (ResNetLayer 128 128 2)) = 1"
    by (simp add: ResNetLayer_def basic_block_fields)
  ultimately have "expanded_channels (last (last (stages (encoder m)))) = 128"
    using m(5) by simp
  with enc m show ?thesis by simp
qed

section \<open>Shapes through the heads and the whole network\<close>

text \<open>
  On an 11x11 feature map the policy head returns one row of \<open>outplanes\<close> entries per
  batch element, and the value head one scalar per batch element, whatever \<open>outplanes\<close>
  it was built with. A dual network for 10 input planes maps a batch of one 10x11x11
  input to a policy of shape \<open>[1, n_classes]\<close> and a value of shape \<open>[1, 1]\<close>.
\<close>

lemma ValueNet_forward_single_scalar:
  "0 < n \<Longrightarrow> ValueNet_forward (ValueNet c k) [n, c, 11, 11] = Inr [n, 1]"
  by (simp add: ValueNet_forward_def ValueNet_def nn_Conv2d_def conv_out_dim_def
        linear_forward_def)

lemma PolicyNet_forward_shape:
  "0 < n \<Longrightarrow> PolicyNet_forward (PolicyNet c k) [n, c, 11, 11] = Inr [n, k]"
  by (simp add: PolicyNet_forward_def PolicyNet_def nn_Conv2d_def conv_out_dim_def
        linear_forward_def logsoftmax_dim1_def)

lemma same_width_layer_forward:
  "0 < h \<Longrightarrow> 0 < w \<Longrightarrow>
   ResNetLayer_forward (ResNetLayer c c n) [b, c, h, w] = Inr [b, c, h, w]"
  using replicate_identity_blocks_forward [of h w "Suc (nat (n - 1))" c b]
  by (simp add: ResNetLayer_def ResNetLayer_downsampling_def ResNetBasicBlock_expansion_def)

lemma DualRes_forward_shapes:
  assumes "DualRes 10 k cuda tpu dv bs (d0 # ds) = Inr m"
  shows "DualRes_forward m [1, 10, 11, 11] = Inr ([1, k], [1, 1])"
proof -
  let ?enc = "\<lparr>blocks_sizes = [128],
      gate = Sequential [Conv2d (nn_Conv2d 10 128 (3, 3) (1, 1) (1, 1) False),
                         BatchNorm2d 128, ReLU],
      in_out_block_sizes = [], stages = [ResNetLayer 128 128 d0]\<rparr>"
  have exp: "expanded_channels (ResNetBasicBlock 128 128 1 1) = 128"
    by (simp add: expanded_channels_def basic_block_fields)
  from assms have m: "m = \<lparr>use_cuda = cuda, use_tpu = tpu, dev = dv, encoder = ?enc,
      policy = PolicyNet 128 k, val = ValueNet 128 k\<rparr>"
    using exp py_last_same_width_layer [of 128 d0]
    by (simp add: DualRes_def ResNetEncoder_def ResNetEncoder_default_blocks_sizes_def
          py_last_single)
  have enc: "ResNetEncoder_forward ?enc [1, 10, 11, 11] = Inr [1, 128, 11, 11]"
    using same_width_layer_forward [of 11 11 128 d0 1]
    by (simp add: ResNetEncoder_forward_def nn_Conv2d_def conv_out_dim_def)
  show ?thesis
    using enc PolicyNet_forward_shape [of 1 128 k] ValueNet_forward_single_scalar [of 1 128 k]
    by (simp add: m DualRes_forward_def)
qed

section \<open>Inference: gradient mode, evaluation mode, repeated calls\<close>

lemma forward_flags:
  "forward lib x \<sigma> = (r, \<sigma>') \<Longrightarrow>
   grad_enabled \<sigma>' = grad_enabled \<sigma> \<and> training \<sigma>' = training \<sigma> \<and>
   forward_entries \<sigma>' = forward_entries \<sigma> @ [(grad_enabled \<sigma>, training \<sigma>)]"
  by (auto simp: forward_def Let_def split: prod.splits sum.splits)

lemma no_grad_forward_eval:
  assumes "with_no_grad (forward lib x) (module_eval \<sigma>) = (r, \<sigma>')"
  shows "grad_enabled \<sigma>' = grad_enabled \<sigma> \<and> \<not> training \<sigma>' \<and>
         forward_entries \<sigma>' = forward_entries \<sigma> @ [(False, False)]"
proof -
  obtain r1 \<sigma>1 where f: "forward lib x (module_eval \<sigma>\<lparr>grad_enabled := False\<rparr>) = (r1, \<sigma>1)"
    by (cases "forward lib x (module_eval \<sigma>\<lparr>grad_enabled := False\<rparr>)")
  with assms have "\<sigma>' = \<sigma>1\<lparr>grad_enabled := grad_enabled \<sigma>\<rparr>"
    by (simp add: with_no_grad_def module_eval_def)
  with forward_flags [OF f] show ?thesis
    by (simp add: module_eval_def)
qed

lemma predict_outcome:
  assumes "predict lib self x \<sigma> = (r, \<sigma>')"
  shows "(\<exists>e. r = Inl e \<and> \<sigma>' = \<sigma>) \<or>
         (\<exists>t r1. with_no_grad (forward lib t) (module_eval \<sigma>) = (r1, \<sigma>'))"
proof -
  let ?conv = "if use_tpu self then from_numpy_to lib x (dev self) else FloatTensor_astype lib x"
  show ?thesis
  proof (cases ?conv)
    case (Inl e)
    with assms show ?thesis by (auto simp: predict_def)
  next
    case x1: (Inr x1)
    let ?cuda = "if use_cuda self then contiguous_cuda lib x1 else Inr x1"
    show ?thesis
    proof (cases ?cuda)
      case (Inl e)
      with assms x1 show ?thesis by (auto simp: predict_def)
    next
      case x2: (Inr x2)
      show ?thesis
      proof (cases "view lib x2 [1, 10, 11, 11]")
        case (Inl e)
        with assms x1 x2 show ?thesis by (auto simp: predict_def)
      next
        case x3: (Inr x3)
        obtain r1 \<sigma>1 where w: "with_no_grad (forward lib x3) (module_eval \<sigma>) = (r1, \<sigma>1)"
          by (cases "with_no_grad (forward lib x3) (module_eval \<sigma>)")
        from assms x1 x2 x3 w have "\<sigma>' = \<sigma>1"
          by (auto simp: predict_def split: sum.splits prod.splits)
        with w show ?thesis by blast
      qed
    qed
  qed
qed







text \<open>
  Claim C3. For every call of \<^verbatim>\<open>predict\<close>, whatever the library calls return or raise:
  the gradient mode after the call is the gradient mode before it, also when the call
  raises and also when \<^verbatim>\<open>forward\<close> raises. Either the call raised before it reached
  \<^verbatim>\<open>eval()\<close> and changed nothing, or \<^verbatim>\<open>forward\<close> was entered exactly once, with
  gradient tracking off and in evaluation mode, and the module is in evaluation mode
  after the call. In particular the module is in evaluation mode whenever \<^verbatim>\<open>predict\<close>
  returns a result.
\<close>

theorem predict_restores_grad_mode:
  assumes "predict lib self x \<sigma> = (r, \<sigma>')"
  shows "grad_enabled \<sigma>' = grad_enabled \<sigma> \<and>
         ((\<exists>e. r = Inl e \<and> \<sigma>' = \<sigma>) \<or>
          (\<not> training \<sigma>' \<and> forward_entries \<sigma>' = forward_entries \<sigma> @ [(False, False)])) \<and>
         ((\<exists>y. r = Inr y) \<longrightarrow> \<not> training \<sigma>')"
  using predict_outcome [OF assms] no_grad_forward_eval [of lib _ \<sigma> _ \<sigma>']
  by auto

text \<open>
  A library whose encoder call raises, started with gradient tracking on and the module
  in training mode: \<^verbatim>\<open>predict\<close> raises, gradient tracking is on again, the module is in
  evaluation mode, and \<^verbatim>\<open>forward\<close> ran once with gradient tracking off.
\<close>

theorem predict_restores_grad_mode_witness:
  "predict
     \<lparr>from_numpy_to = (\<lambda>x d. Inr x), FloatTensor_astype = Inr, contiguous_cuda = Inr,
      view = (\<lambda>t s. Inr t),
      encoder_call = (\<lambda>tr w t. (Inl LibraryError, w)),
      policy_call = (\<lambda>tr w t. (Inr t, w)),
      value_call = (\<lambda>tr w t. (Inr t, w)),
      data_cpu_numpy_0 = Inr\<rparr>
     \<lparr>use_cuda = False, use_tpu = False, dev = (None :: nat option),
      encoder = \<lparr>blocks_sizes = [128],
                  gate = Sequential [Conv2d (nn_Conv2d 10 128 (3, 3) (1, 1) (1, 1) False),
                                     BatchNorm2d 128, ReLU],
                  in_out_block_sizes = [], stages = [ResNetLayer 128 128 20]\<rparr>,
      policy = PolicyNet 128 5, val = ValueNet 128 5\<rparr>
     [0 :: nat]
     \<lparr>grad_enabled = True, training = True, weights = (0 :: nat), forward_entries = []\<rparr>
   = (Inl LibraryError,
      \<lparr>grad_enabled = True, training = False, weights = 0,
       forward_entries = [(False, False)]\<rparr>) \<and>
   grad_enabled \<lparr>grad_enabled = True, training = False, weights = (0 :: nat),
                 forward_entries = [(False, False)]\<rparr>"
proof -
  let ?lib = "\<lparr>from_numpy_to = (\<lambda>(x :: nat list) (d :: nat option). Inr x),
      FloatTensor_astype = Inr, contiguous_cuda = Inr,
      view = (\<lambda>t s. Inr t),
      encoder_call = (\<lambda>tr (w :: nat) t. (Inl LibraryError, w)),
      policy_call = (\<lambda>tr w t. (Inr t, w)),
      value_call = (\<lambda>tr w t. (Inr t, w)),
      data_cpu_numpy_0 = Inr\<rparr>"
  let ?net = "\<lparr>use_cuda = False, use_tpu = False, dev = (None :: nat option),
      encoder = \<lparr>blocks_sizes = [128],
                  gate = Sequential [Conv2d (nn_Conv2d 10 128 (3, 3) (1, 1) (1, 1) False),
                                     BatchNorm2d 128, ReLU],
                  in_out_block_sizes = [], stages = [ResNetLayer 128 128 20]\<rparr>,
      policy = PolicyNet 128 5, val = ValueNet 128 5\<rparr>"
  let ?s = "\<lparr>grad_enabled = True, training = True, weights = (0 :: nat), forward_entries = []\<rparr>"
  let ?s' = "\<lparr>grad_enabled = True, training = False, weights = (0 :: nat),
      forward_entries = [(False, False)]\<rparr>"
  have run: "predict ?lib ?net [0] ?s = (Inl LibraryError, ?s')"
    by (simp add: predict_def with_no_grad_def forward_def module_eval_def)
  from predict_restores_grad_mode [OF run] run show ?thesis by simp
qed



section \<open>A network configured for a device that is not given\<close>

text \<open>
  The constructor accepts \<^verbatim>\<open>tpu=True\<close> with \<^verbatim>\<open>dev=None\<close>. In \<^verbatim>\<open>predict\<close> the device is
  only handed to the library's conversion, so the call raises at that point exactly when
  the library raises on a device that is \<^verbatim>\<open>None\<close>.
\<close>

lemma DualRes_tpu_without_dev_constructs:
  "\<exists>m. DualRes cin k cuda True None blocks_size (d0 # ds) = Inr m \<and> use_tpu m \<and> dev m = None"
  using py_last_same_width_layer [of 128 d0]
  by (simp add: DualRes_def ResNetEncoder_def ResNetEncoder_default_blocks_sizes_def
        py_last_single)

lemma predict_tpu_without_dev:
  "use_tpu self \<Longrightarrow> dev self = None \<Longrightarrow> from_numpy_to lib x None = Inl e \<Longrightarrow>
   predict lib self x \<sigma> = (Inl e, \<sigma>)"
  by (simp add: predict_def)

end
